theory Spec2Isabelle
  imports Complex_Main "HOL-Library.AList"
begin

section \<open>Python strings and dictionaries\<close>

text \<open>
  A Python \<open>str\<close> is modelled as a HOL \<open>string\<close>, each \<open>char\<close> standing for one code
  point below 256.  A Python \<open>dict\<close> with string keys and values is an association list
  with distinct keys in insertion order; \<open>d[k] = v\<close> is \<open>AList.update k v d\<close>, which
  overwrites in place or appends at the end, as Python does.
\<close>

type_synonym dict = "(string \<times> string) list"

definition py_isspace :: "char \<Rightarrow> bool" where
  "py_isspace c = (of_char c \<in> {9, 10, 11, 12, 13, 28, 29, 30, 31, 32, 133, 160 :: nat})"

definition strip :: "string \<Rightarrow> string" where
  "strip s = rev (dropWhile py_isspace (rev (dropWhile py_isspace s)))"

definition replace_colon :: "string \<Rightarrow> string" where
  "replace_colon s = filter (\<lambda>c. c \<noteq> CHR '':'') s"

fun startswith :: "string \<Rightarrow> string \<Rightarrow> bool" where
  "startswith [] s = True"
| "startswith (p # ps) [] = False"
| "startswith (p # ps) (c # cs) = (p = c \<and> startswith ps cs)"

fun contains_str :: "string \<Rightarrow> string \<Rightarrow> bool" where
  "contains_str p [] = (p = [])"
| "contains_str p (c # cs) = (startswith p (c # cs) \<or> contains_str p cs)"

section \<open>The parsed document\<close>

text \<open>
  \<open>BeautifulSoup(uploaded_file, 'lxml')\<close> is the work of two libraries; the model starts
  from the tree they return.  A node is a text node or a tag with its name, the tokens of
  its \<open>class\<close> attribute and its children; comments and the other nodes that
  \<open>get_text\<close> passes over are left out.  \<open>find_all\<close> and \<open>find\<close> search all
  descendants of a node in document order, nested tables included.
\<close>

datatype node = NavigableString string | Tag string "string list" "node list"

fun descendants :: "node \<Rightarrow> node list" where
  "descendants (NavigableString s) = []"
| "descendants (Tag name cls kids) = concat (map (\<lambda>k. k # descendants k) kids)"

fun is_tag :: "string \<Rightarrow> node \<Rightarrow> bool" where
  "is_tag n (NavigableString s) = False"
| "is_tag n (Tag name cls kids) = (name = n)"

fun has_class :: "string \<Rightarrow> node \<Rightarrow> bool" where
  "has_class c (NavigableString s) = False"
| "has_class c (Tag name cls kids) = (c \<in> set cls)"

fun strings :: "node \<Rightarrow> string list" where
  "strings (NavigableString s) = [s]"
| "strings (Tag name cls kids) = []"

definition find_all :: "string \<Rightarrow> node \<Rightarrow> node list" where
  "find_all n t = filter (is_tag n) (descendants t)"

definition find_all_class :: "string \<Rightarrow> string \<Rightarrow> node \<Rightarrow> node list" where
  "find_all_class n c t = filter (\<lambda>x. is_tag n x \<and> has_class c x) (descendants t)"

definition find :: "string \<Rightarrow> node \<Rightarrow> node option" where
  "find n t = (case find_all n t of [] \<Rightarrow> None | x # _ \<Rightarrow> Some x)"

definition find_class :: "string \<Rightarrow> string \<Rightarrow> node \<Rightarrow> node option" where
  "find_class n c t = (case find_all_class n c t of [] \<Rightarrow> None | x # _ \<Rightarrow> Some x)"

text \<open>\<open>get_text(strip=True)\<close>: every text node below the tag, stripped, the empty ones
  dropped, joined with no separator.\<close>

definition get_text :: "node \<Rightarrow> string" where
  "get_text t = concat (filter (\<lambda>s. s \<noteq> []) (map strip (concat (map strings (descendants t)))))"

section \<open>The data frame\<close>

text \<open>
  A column is an object column of strings with missing entries (\<open>None\<close> is pandas' NaN
  in an object column), a numeric column or a boolean column.  A frame is the ordered
  list of its named columns, all of one length.  Strings are held in object columns, as
  pandas 1 and 2 do.
\<close>

datatype 'f column = Object "string option list" | Float64 "'f list" | Boolean "bool list"

type_synonym 'f dataframe = "(string \<times> 'f column) list"

text \<open>The distinct elements of a list in the order of their first occurrence.\<close>

fun uniques_acc :: "'a list \<Rightarrow> 'a list \<Rightarrow> 'a list" where
  "uniques_acc seen [] = seen"
| "uniques_acc seen (x # xs) = uniques_acc (if x \<in> set seen then seen else seen @ [x]) xs"

definition uniques :: "'a list \<Rightarrow> 'a list" where
  "uniques xs = uniques_acc [] xs"

text \<open>\<open>pd.DataFrame(list_of_dicts)\<close>: one column for each key that occurs, in the order of
  first occurrence, one row for each dictionary, a missing key giving a missing entry.\<close>

definition DataFrame :: "dict list \<Rightarrow> 'f dataframe" where
  "DataFrame data =
     map (\<lambda>c. (c, Object (map (\<lambda>d. map_of d c) data))) (uniques (concat (map (map fst) data)))"

section \<open>parse_csrs_file\<close>

text \<open>The body of the loop over the rows of the student-information table.\<close>

definition info_row :: "node \<Rightarrow> dict \<Rightarrow> dict" where
  "info_row row student_info =
     (let cols = find_all ''td'' row in
      if length cols = 2
      then AList.update (replace_colon (get_text (cols ! 0))) (get_text (cols ! 1)) student_info
      else student_info)"

text \<open>The dictionary comprehension that builds one grade record.\<close>

definition row_data :: "string list \<Rightarrow> node list \<Rightarrow> dict" where
  "row_data headers cols =
     foldl (\<lambda>d (i, col). AList.update (headers ! i) (get_text col) d) []
       (filter (\<lambda>(i, col). i < length headers) (enumerate 0 cols))"

text \<open>The body of the loop over the rows of one grade table.\<close>

definition grade_row :: "string list \<Rightarrow> node \<Rightarrow> dict list \<Rightarrow> dict list" where
  "grade_row headers row all_grades =
     (if find ''th'' row \<noteq> None then all_grades
      else let cols = find_all ''td'' row in
        if cols = [] then all_grades
        else all_grades @ [row_data headers cols])"

definition table_headers :: "node \<Rightarrow> string list" where
  "table_headers table = map get_text (find_all ''th'' table)"

definition grade_table :: "node \<Rightarrow> dict list \<Rightarrow> dict list" where
  "grade_table table all_grades =
     (let headers = table_headers table in
      foldl (\<lambda>acc row. grade_row headers row acc) all_grades (find_all ''tr'' table))"

definition student_info_of :: "node \<Rightarrow> dict" where
  "student_info_of soup =
     (case find_class ''table'' ''form'' soup of
        None \<Rightarrow> []
      | Some info_table \<Rightarrow> foldl (\<lambda>d row. info_row row d) [] (find_all ''tr'' info_table))"

definition all_grades_of :: "node \<Rightarrow> dict list" where
  "all_grades_of soup =
     foldl (\<lambda>acc table. grade_table table acc) [] (find_all_class ''table'' ''list'' soup)"

definition parse_csrs_file :: "node \<Rightarrow> dict \<times> 'f dataframe" where
  "parse_csrs_file soup = (student_info_of soup, DataFrame (all_grades_of soup))"

section \<open>Numbers\<close>

text \<open>
  The numeric scalars of numpy and the operations the program applies to them are not
  part of the program; they are parameters of the model, so that every theorem below holds
  for whatever arithmetic the library implements.  \<open>f_parse\<close> is what
  \<open>pd.to_numeric(..., errors='coerce')\<close> makes of one string (a NaN when it does not
  parse), \<open>f_nan\<close> the NaN that stands for a missing entry, \<open>f_pos x\<close> the test
  \<open>x > 0\<close>, \<open>f_zero\<close> the literal \<open>0.0\<close>, \<open>f_sum\<close> the library's sum of a
  sequence of numbers none of which is NaN, \<open>f_repr\<close> the text of a number in an
  f-string.
\<close>

record 'f arith =
  f_parse :: "string \<Rightarrow> 'f"
  f_nan :: "'f"
  f_isnan :: "'f \<Rightarrow> bool"
  f_of_bool :: "bool \<Rightarrow> 'f"
  f_zero :: "'f"
  f_mul :: "'f \<Rightarrow> 'f \<Rightarrow> 'f"
  f_div :: "'f \<Rightarrow> 'f \<Rightarrow> 'f"
  f_pos :: "'f \<Rightarrow> bool"
  f_sum :: "'f list \<Rightarrow> 'f"
  f_repr :: "'f \<Rightarrow> string"

text \<open>\<open>Series.sum()\<close> of a numeric column skips the NaN entries: it is the library's sum
  of the entries that are left, \<open>0.0\<close> for none.\<close>

definition nansum :: "'f arith \<Rightarrow> 'f list \<Rightarrow> 'f" where
  "nansum A xs = f_sum A (filter (\<lambda>x. \<not> f_isnan A x) xs)"

section \<open>Column operations\<close>

datatype error = KeyError string | TypeError | AttributeError

text \<open>A raised exception ends the computation: the rest runs on a returned value only.\<close>

fun and_then :: "error + 'a \<Rightarrow> ('a \<Rightarrow> error + 'b) \<Rightarrow> error + 'b" where
  "and_then (Inl e) f = Inl e"
| "and_then (Inr x) f = f x"

definition getitem :: "'f dataframe \<Rightarrow> string \<Rightarrow> error + 'f column" where
  "getitem df c = (case map_of df c of None \<Rightarrow> Inl (KeyError c) | Some col \<Rightarrow> Inr col)"

definition setitem :: "'f dataframe \<Rightarrow> string \<Rightarrow> 'f column \<Rightarrow> 'f dataframe" where
  "setitem df c col = AList.update c col df"

fun to_numeric :: "'f arith \<Rightarrow> 'f column \<Rightarrow> 'f list" where
  "to_numeric A (Object xs) = map (\<lambda>x. case x of None \<Rightarrow> f_nan A | Some s \<Rightarrow> f_parse A s) xs"
| "to_numeric A (Float64 xs) = xs"
| "to_numeric A (Boolean bs) = map (f_of_bool A) bs"

text \<open>
  The pattern \<open>^(PE|NSTP)\<close> searched with \<open>re.IGNORECASE\<close>: \<open>^\<close> matches at the
  start of the string only, and a letter of the pattern matches a character whose
  lower case is the letter's.
\<close>

definition lower :: "char \<Rightarrow> char" where
  "lower c = (let n = (of_char c :: nat) in if 65 \<le> n \<and> n \<le> 90 then char_of (n + 32) else c)"

fun match_ci :: "string \<Rightarrow> string \<Rightarrow> bool" where
  "match_ci [] s = True"
| "match_ci (p # ps) [] = False"
| "match_ci (p # ps) (c # cs) = (lower p = lower c \<and> match_ci ps cs)"

definition re_search :: "string \<Rightarrow> bool" where
  "re_search s = (match_ci ''PE'' s \<or> match_ci ''NSTP'' s)"

text \<open>
  \<open>Series.str.contains\<close>: the \<open>.str\<close> accessor exists on object columns only; a
  missing entry gives a missing result.
\<close>

fun str_contains :: "'f column \<Rightarrow> error + bool option list" where
  "str_contains (Object xs) = Inr (map (map_option re_search) xs)"
| "str_contains (Float64 xs) = Inl AttributeError"
| "str_contains (Boolean bs) = Inl AttributeError"

text \<open>\<open>~\<close> on the result: with a missing entry the series is an object series, and
  inverting a NaN raises \<open>TypeError\<close>.\<close>

definition invert :: "bool option list \<Rightarrow> error + bool list" where
  "invert m = (if None \<in> set m then Inl TypeError else Inr (map (\<lambda>b. \<not> the b) m))"

definition notna :: "'f arith \<Rightarrow> 'f list \<Rightarrow> bool list" where
  "notna A xs = map (\<lambda>x. \<not> f_isnan A x) xs"

text \<open>Selection of the rows where a boolean mask is true.\<close>

definition select :: "bool list \<Rightarrow> 'a list \<Rightarrow> 'a list" where
  "select msk xs = map snd (filter fst (zip msk xs))"

fun select_col :: "bool list \<Rightarrow> 'f column \<Rightarrow> 'f column" where
  "select_col msk (Object xs) = Object (select msk xs)"
| "select_col msk (Float64 xs) = Float64 (select msk xs)"
| "select_col msk (Boolean bs) = Boolean (select msk bs)"

definition take_rows :: "bool list \<Rightarrow> 'f dataframe \<Rightarrow> 'f dataframe" where
  "take_rows msk df = map (\<lambda>(c, col). (c, select_col msk col)) df"

text \<open>\<open>df[df['Is_Included']]\<close>.  The column was assigned a boolean series, so the last
  case is not reached from \<open>calculate_gwa\<close>.\<close>

definition included_rows :: "'f dataframe \<Rightarrow> error + 'f dataframe" where
  "included_rows df =
     and_then (getitem df ''Is_Included'') (\<lambda>col.
       case col of Boolean msk \<Rightarrow> Inr (take_rows msk df) | _ \<Rightarrow> Inl (KeyError ''Is_Included''))"

text \<open>\<open>df[c].sum()\<close>.  The two columns summed were assigned numeric series, so the last
  case is not reached from \<open>calculate_gwa\<close>.\<close>

definition column_sum :: "'f arith \<Rightarrow> 'f dataframe \<Rightarrow> string \<Rightarrow> error + 'f" where
  "column_sum A df c =
     and_then (getitem df c) (\<lambda>col.
       case col of Float64 xs \<Rightarrow> Inr (nansum A xs) | _ \<Rightarrow> Inl TypeError)"

section \<open>Grouping\<close>

text \<open>The values of a column as group keys; \<open>None\<close> is a missing value.\<close>

datatype 'f scalar = Str string | Flt 'f | Bool bool

fun keys_of :: "'f arith \<Rightarrow> 'f column \<Rightarrow> 'f scalar option list" where
  "keys_of A (Object xs) = map (map_option Str) xs"
| "keys_of A (Float64 xs) = map (\<lambda>x. if f_isnan A x then None else Some (Flt x)) xs"
| "keys_of A (Boolean bs) = map (\<lambda>b. Some (Bool b)) bs"

fun present :: "'a option \<times> 'b option \<Rightarrow> ('a \<times> 'b) list" where
  "present (Some y, Some s) = [(y, s)]"
| "present _ = []"

text \<open>
  \<open>df.groupby([by1, by2], sort=False)\<close>, iterated: the rows with a missing key belong
  to no group; the groups come in the order in which their keys first occur; a group
  holds every row with its key, in the order of the frame.
\<close>

definition groupby ::
  "'f arith \<Rightarrow> 'f dataframe \<Rightarrow> string \<Rightarrow> string \<Rightarrow>
     error + (('f scalar \<times> 'f scalar) \<times> 'f dataframe) list" where
  "groupby A df by1 by2 =
     and_then (getitem df by1) (\<lambda>c1.
     and_then (getitem df by2) (\<lambda>c2.
       let keys = zip (keys_of A c1) (keys_of A c2) in
       Inr (map (\<lambda>(y, s). ((y, s), take_rows (map (\<lambda>k. k = (Some y, Some s)) keys) df))
              (uniques (concat (map present keys))))))"

section \<open>calculate_gwa\<close>

record 'f term_summary =
  Year :: "'f scalar"
  Semester :: "'f scalar"
  Term :: string
  Units :: 'f
  GWA :: 'f

text \<open>Lines 33 to 36: the four derived columns.  \<open>df['Grade_Calc']\<close> and
  \<open>df['Units_Calc']\<close> on lines 35 and 36 are the series assigned on lines 33 and 34.\<close>

definition add_columns :: "'f arith \<Rightarrow> 'f dataframe \<Rightarrow> error + 'f dataframe" where
  "add_columns A df =
     and_then (getitem df ''Units'') (\<lambda>units.
     let units_calc = to_numeric A units;
         df1 = setitem df ''Units_Calc'' (Float64 units_calc) in
     and_then (getitem df1 ''Grade'') (\<lambda>grade.
     let grade_calc = to_numeric A grade;
         df2 = setitem df1 ''Grade_Calc'' (Float64 grade_calc) in
     and_then (getitem df2 ''Course'') (\<lambda>course.
     and_then (str_contains course) (\<lambda>m.
     and_then (invert m) (\<lambda>not_pe.
     let is_included = map2 (\<and>) not_pe (notna A grade_calc);
         df3 = setitem df2 ''Is_Included'' (Boolean is_included);
         weighted_grade = map2 (f_mul A) grade_calc units_calc
     in Inr (setitem df3 ''Weighted_Grade'' (Float64 weighted_grade)))))))"

text \<open>Lines 41 to 44 and 59 to 62: the average over the included rows of a frame.\<close>

definition gwa_of :: "'f arith \<Rightarrow> 'f dataframe \<Rightarrow> error + 'f \<times> 'f" where
  "gwa_of A df =
     and_then (included_rows df) (\<lambda>valid.
     and_then (column_sum A valid ''Units_Calc'') (\<lambda>total_units.
     and_then (column_sum A valid ''Weighted_Grade'') (\<lambda>weighted_sum.
       Inr (total_units,
            if f_pos A total_units then f_div A weighted_sum total_units else f_zero A))))"

text \<open>The text of a key in an f-string.\<close>

fun format_scalar :: "'f arith \<Rightarrow> 'f scalar \<Rightarrow> string" where
  "format_scalar A (Str s) = s"
| "format_scalar A (Flt x) = f_repr A x"
| "format_scalar A (Bool b) = (if b then ''True'' else ''False'')"

definition short_sem_of :: "string \<Rightarrow> string" where
  "short_sem_of sem =
     (if contains_str ''FIRST'' sem then ''1st Sem''
      else if contains_str ''SECOND'' sem then ''2nd Sem'' else ''Midsem'')"

text \<open>The body of the loop over the groups.  \<open>"FIRST" in sem\<close> raises \<open>TypeError\<close>
  when \<open>sem\<close> is not a string.\<close>

fun sem_row ::
  "'f arith \<Rightarrow> ('f scalar \<times> 'f scalar) \<times> 'f dataframe \<Rightarrow> error + 'f term_summary" where
  "sem_row A ((year, sem), grp) =
     and_then (gwa_of A grp) (\<lambda>(total_units, gwa).
       case sem of
         Str s \<Rightarrow>
           Inr \<lparr>Year = year, Semester = sem,
                Term = format_scalar A year @ '' '' @ short_sem_of s,
                Units = total_units, GWA = gwa\<rparr>
       | _ \<Rightarrow> Inl TypeError)"

fun sem_loop ::
  "'f arith \<Rightarrow> (('f scalar \<times> 'f scalar) \<times> 'f dataframe) list \<Rightarrow> 'f term_summary list \<Rightarrow>
     error + 'f term_summary list" where
  "sem_loop A [] sem_data = Inr sem_data"
| "sem_loop A (g # gs) sem_data =
     and_then (sem_row A g) (\<lambda>row. sem_loop A gs (sem_data @ [row]))"

text \<open>
  The frame \<open>df\<close> is changed in place and returned; \<open>df_sem\<close> is returned as the list of
  its rows.
\<close>

definition calculate_gwa ::
  "'f arith \<Rightarrow> 'f dataframe \<Rightarrow> error + 'f dataframe \<times> 'f term_summary list \<times> 'f" where
  "calculate_gwa A df0 =
     and_then (add_columns A df0) (\<lambda>df.
     and_then (groupby A df ''Year'' ''Semester'') (\<lambda>sem_groups.
     and_then (sem_loop A sem_groups []) (\<lambda>df_sem.
     and_then (gwa_of A df) (\<lambda>(total_units_cum, overall_gwa).
       Inr (df, df_sem, overall_gwa)))))"

section \<open>The records as the specification describes them\<close>

text \<open>
  The derived fields of one grade record, in the words of the specification: the numeric
  value of \<open>Units\<close> and \<open>Grade\<close> (a NaN when the field is missing), the inclusion
  predicate, the weighted grade.
\<close>

definition UnitsNumeric :: "'f arith \<Rightarrow> dict \<Rightarrow> 'f" where
  "UnitsNumeric A r = (case map_of r ''Units'' of None \<Rightarrow> f_nan A | Some s \<Rightarrow> f_parse A s)"

definition GradeNumeric :: "'f arith \<Rightarrow> dict \<Rightarrow> 'f" where
  "GradeNumeric A r = (case map_of r ''Grade'' of None \<Rightarrow> f_nan A | Some s \<Rightarrow> f_parse A s)"

definition upper :: "char \<Rightarrow> char" where
  "upper c = (let n = (of_char c :: nat) in if 97 \<le> n \<and> n \<le> 122 then char_of (n - 32) else c)"

text \<open>The course code starts with PE or NSTP, compared without regard to case.\<close>

definition pe_or_nstp :: "string \<Rightarrow> bool" where
  "pe_or_nstp course = (map upper (take 2 course) = ''PE'' \<or> map upper (take 4 course) = ''NSTP'')"

definition IsIncluded :: "'f arith \<Rightarrow> dict \<Rightarrow> bool" where
  "IsIncluded A r =
     ((case map_of r ''Course'' of None \<Rightarrow> False | Some c \<Rightarrow> \<not> pe_or_nstp c)
      \<and> \<not> f_isnan A (GradeNumeric A r))"

definition WeightedGrade :: "'f arith \<Rightarrow> dict \<Rightarrow> 'f" where
  "WeightedGrade A r = f_mul A (GradeNumeric A r) (UnitsNumeric A r)"

text \<open>A column exists in the frame of a record sequence when some record has the field.\<close>

definition has_column :: "string \<Rightarrow> dict list \<Rightarrow> bool" where
  "has_column c recs = (\<exists>r \<in> set recs. map_of r c \<noteq> None)"

text \<open>The record sequence with its four derived columns.\<close>

definition processed :: "'f arith \<Rightarrow> dict list \<Rightarrow> 'f dataframe" where
  "processed A recs =
     setitem (setitem (setitem (setitem (DataFrame recs)
       ''Units_Calc'' (Float64 (map (UnitsNumeric A) recs)))
       ''Grade_Calc'' (Float64 (map (GradeNumeric A) recs)))
       ''Is_Included'' (Boolean (map (IsIncluded A) recs)))
       ''Weighted_Grade'' (Float64 (map (WeightedGrade A) recs))"

definition derived_columns :: "string list" where
  "derived_columns = [''Units_Calc'', ''Grade_Calc'', ''Is_Included'', ''Weighted_Grade'']"

text \<open>The term of a record, and the terms of the records that have both fields, in the
  order of the records.\<close>

definition term_of :: "dict \<Rightarrow> string option \<times> string option" where
  "term_of r = (map_of r ''Year'', map_of r ''Semester'')"

definition terms :: "dict list \<Rightarrow> (string \<times> string) list" where
  "terms recs = concat (map (\<lambda>r. present (term_of r)) recs)"

definition total_units :: "'f arith \<Rightarrow> dict list \<Rightarrow> 'f" where
  "total_units A rs = nansum A (map (UnitsNumeric A) rs)"

definition weighted_sum :: "'f arith \<Rightarrow> dict list \<Rightarrow> 'f" where
  "weighted_sum A rs = nansum A (map (WeightedGrade A) rs)"

text \<open>The total units and the average of a sequence of records.\<close>

definition average :: "'f arith \<Rightarrow> dict list \<Rightarrow> 'f \<times> 'f" where
  "average A rs =
     (let total_units = nansum A (map (UnitsNumeric A) rs);
          weighted_sum = nansum A (map (WeightedGrade A) rs)
      in (total_units,
          if f_pos A total_units then f_div A weighted_sum total_units else f_zero A))"

text \<open>The included records of one term.\<close>

definition included_in_term :: "'f arith \<Rightarrow> dict list \<Rightarrow> string \<Rightarrow> string \<Rightarrow> dict list" where
  "included_in_term A recs y s =
     filter (\<lambda>r. term_of r = (Some y, Some s) \<and> IsIncluded A r) recs"

definition summary :: "'f arith \<Rightarrow> dict list \<Rightarrow> string \<times> string \<Rightarrow> 'f term_summary" where
  "summary A recs t =
     (let rs = filter (\<lambda>r. term_of r = (Some (fst t), Some (snd t)) \<and> IsIncluded A r) recs in
      \<lparr>Year = Str (fst t), Semester = Str (snd t),
       Term = fst t @ '' '' @ short_sem_of (snd t),
       Units = fst (average A rs), GWA = snd (average A rs)\<rparr>)"

definition group_of :: "'f arith \<Rightarrow> dict list \<Rightarrow> string \<times> string \<Rightarrow> ('f scalar \<times> 'f scalar) \<times> 'f dataframe" where
  "group_of A recs t =
     ((Str (fst t), Str (snd t)),
      take_rows (map (\<lambda>r. term_of r = (Some (fst t), Some (snd t))) recs) (processed A recs))"


text \<open>The key and value pairs of the two-cell rows of a table, in document order, and the
  dictionary built from a sequence of pairs.\<close>

definition info_pairs :: "node \<Rightarrow> (string \<times> string) list" where
  "info_pairs table =
     concat (map (\<lambda>row. case find_all ''td'' row of
                           [k, v] \<Rightarrow> [(replace_colon (get_text k), get_text v)]
                         | _ \<Rightarrow> [])
               (find_all ''tr'' table))"

definition dict_of :: "(string \<times> string) list \<Rightarrow> dict" where
  "dict_of kvs = foldl (\<lambda>d (k, v). AList.update k v d) [] kvs"

text \<open>The data rows of a grade table: the rows without a header cell and with at least one
  cell.\<close>

definition data_rows :: "node \<Rightarrow> node list" where
  "data_rows table =
     filter (\<lambda>row. find ''th'' row = None \<and> find_all ''td'' row \<noteq> []) (find_all ''tr'' table)"


definition rstrip_colon :: "string \<Rightarrow> string" where
  "rstrip_colon s = (if s \<noteq> [] \<and> last s = CHR '':'' then butlast s else s)"

section \<open>An exact arithmetic and sample inputs\<close>

text \<open>
  To run the model on concrete inputs: numbers are rationals, \<open>None\<close> is NaN, a string
  parses when it is a run of digits with at most one decimal point.
\<close>

definition is_digit :: "char \<Rightarrow> bool" where
  "is_digit c = (let n = (of_char c :: nat) in 48 \<le> n \<and> n \<le> 57)"

definition nat_of_digits :: "string \<Rightarrow> nat" where
  "nat_of_digits ds = foldl (\<lambda>a c. 10 * a + (of_char c - 48)) 0 ds"

definition parse_decimal :: "string \<Rightarrow> rat option" where
  "parse_decimal s =
     (let ip = takeWhile (\<lambda>c. c \<noteq> CHR ''.'') s; fp = drop (Suc (length ip)) s in
      if ip @ fp \<noteq> [] \<and> list_all is_digit (ip @ fp)
      then Some (of_nat (nat_of_digits (ip @ fp)) / 10 ^ length fp) else None)"

definition qarith :: "rat option arith" where
  "qarith = \<lparr>
     f_parse = parse_decimal,
     f_nan = None,
     f_isnan = (\<lambda>x. x = None),
     f_of_bool = (\<lambda>b. Some (if b then 1 else 0)),
     f_zero = Some 0,
     f_mul = (\<lambda>x y. case (x, y) of (Some a, Some b) \<Rightarrow> Some (a * b) | _ \<Rightarrow> None),
     f_div = (\<lambda>x y. case (x, y) of (Some a, Some b) \<Rightarrow> (if b = 0 then None else Some (a / b)) | _ \<Rightarrow> None),
     f_pos = (\<lambda>x. case x of Some a \<Rightarrow> 0 < a | None \<Rightarrow> False),
     f_sum = (\<lambda>xs. Some (sum_list (map the xs))),
     f_repr = (\<lambda>x. ''nan'')\<rparr>"

definition rec_of :: "string \<Rightarrow> string \<Rightarrow> string \<Rightarrow> string \<Rightarrow> string \<Rightarrow> dict" where
  "rec_of course grade units year semester =
     [(''Course'', course), (''Grade'', grade), (''Units'', units), (''Year'', year),
      (''Semester'', semester)]"

definition ex_records :: "dict list" where
  "ex_records =
     [rec_of ''MATH1'' ''1.0'' ''3'' ''2023'' ''FIRST'',
      rec_of ''PE1'' ''1.0'' ''2'' ''2023'' ''FIRST'',
      rec_of ''CS11'' ''2.0'' ''3'' ''2023'' ''SECOND'',
      rec_of ''ENG1'' ''INC'' ''3'' ''2023'' ''FIRST'',
      rec_of ''HIST1'' ''1.5'' ''x'' ''2024'' ''FIRST'',
      rec_of ''MATH2'' ''2.0'' ''3'' ''2023'' ''FIRST'']"

definition ex_summaries :: "rat option term_summary list" where
  "ex_summaries =
     [\<lparr>Year = Str ''2023'', Semester = Str ''FIRST'', Term = ''2023 1st Sem'',
       Units = Some 6, GWA = Some (3 / 2)\<rparr>,
      \<lparr>Year = Str ''2023'', Semester = Str ''SECOND'', Term = ''2023 2nd Sem'',
       Units = Some 3, GWA = Some 2\<rparr>,
      \<lparr>Year = Str ''2024'', Semester = Str ''FIRST'', Term = ''2024 1st Sem'',
       Units = Some 0, GWA = Some 0\<rparr>]"

definition ex_clobber :: "dict list" where
  "ex_clobber =
     [rec_of ''MATH1'' ''1.0'' ''3'' ''2023'' ''FIRST'' @ [(''Units_Calc'', ''x'')]]"

definition td :: "string \<Rightarrow> node" where
  "td s = Tag ''td'' [] [NavigableString s]"

definition th :: "string \<Rightarrow> node" where
  "th s = Tag ''th'' [] [NavigableString s]"

definition tr :: "node list \<Rightarrow> node" where
  "tr cells = Tag ''tr'' [] cells"

definition ex_info_doc :: node where
  "ex_info_doc =
     Tag ''[document]'' []
       [Tag ''table'' [''form'']
          [tr [td ''Name:'', td '' Juan Dela Cruz ''],
           tr [td ''Student Number:'', td ''2021-00001''],
           tr [td ''a row with one cell'']]]"

definition ex_colon_doc :: node where
  "ex_colon_doc = Tag ''[document]'' [] [Tag ''table'' [''form''] [tr [td ''A:B:'', td ''v'']]]"


definition ex_grade_doc :: node where
  "ex_grade_doc =
     Tag ''[document]'' []
       [Tag ''table'' [''list'']
          [tr [th ''Course'', th ''Grade'', th ''Units''],
           tr [td ''MATH1'', td ''1.0'', td ''3'', td ''x'', td ''y''],
           tr []]]"

definition ex_repeated_doc :: node where
  "ex_repeated_doc =
     Tag ''[document]'' []
       [Tag ''table'' [''list'']
          [tr [th ''A'', th ''A'', th ''B''],
           tr [td ''1'', td ''2'', td ''3'', td ''x'', td ''y'']]]"

definition ex_no_units :: "dict list" where
  "ex_no_units =
     [[(''Course'', ''MATH1''), (''Grade'', ''1.0''), (''Year'', ''2023''),
       (''Semester'', ''FIRST'')]]"

section \<open>Facts about the model\<close>

lemma uniques_acc_snoc:
  "uniques_acc seen (xs @ [x]) =
     (let r = uniques_acc seen xs in if x \<in> set r then r else r @ [x])"
  by (induction xs arbitrary: seen) (simp_all add: Let_def)

lemma uniques_snoc:
  "uniques (xs @ [x]) = (if x \<in> set (uniques xs) then uniques xs else uniques xs @ [x])"
  by (simp add: uniques_def uniques_acc_snoc Let_def)

lemma uniques_Nil [simp]: "uniques [] = []"
  by (simp add: uniques_def)

lemma set_uniques [simp]: "set (uniques xs) = set xs"
  by (induction xs rule: rev_induct) (auto simp: uniques_snoc)

lemma distinct_uniques [simp]: "distinct (uniques xs)"
  by (induction xs rule: rev_induct) (auto simp: uniques_snoc)

lemma map_of_tabulate:
  "map_of (map (\<lambda>c. (c, f c)) ks) c = (if c \<in> set ks then Some (f c) else None)"
  by (induction ks) auto

lemma map_of_DataFrame:
  "map_of (DataFrame recs) c =
     (if c \<in> (\<Union>r \<in> set recs. fst ` set r) then Some (Object (map (\<lambda>d. map_of d c) recs)) else None)"
  unfolding DataFrame_def map_of_tabulate by auto

lemma getitem_setitem:
  "getitem (setitem df c col) c' = (if c' = c then Inr col else getitem df c')"
  by (simp add: getitem_def setitem_def update_conv')

lemma select_map: "select (map p xs) (map f xs) = map f (filter p xs)"
  by (induction xs) (simp_all add: select_def)

lemma map_of_take_rows:
  "map_of (take_rows m df) c = map_option (select_col m) (map_of df c)"
  by (induction df) (auto simp: take_rows_def)

lemma getitem_take_rows:
  "getitem (take_rows m df) c = and_then (getitem df c) (\<lambda>col. Inr (select_col m col))"
  by (simp add: getitem_def map_of_take_rows split: option.splits)

lemma char_eq_nat: "(c = d) = ((of_char c :: nat) = of_char d)"
  by simp

lemma of_char_lt: "(of_char c :: nat) < 256"
  by (cases c) simp

lemma lower_eq_upper:
  assumes "(of_char p :: nat) \<in> {65..90}"
  shows "(lower p = lower c) = (upper c = p)"
proof -
  have c: "(of_char c :: nat) < 256" by (rule of_char_lt)
  have lp: "(of_char (lower p) :: nat) = of_char p + 32"
    using assms by (simp add: lower_def Let_def)
  have lc: "(of_char (lower c) :: nat) =
      (if 65 \<le> (of_char c :: nat) \<and> (of_char c :: nat) \<le> 90 then of_char c + 32 else of_char c)"
    using c by (simp add: lower_def Let_def)
  have uc: "(of_char (upper c) :: nat) =
      (if 97 \<le> (of_char c :: nat) \<and> (of_char c :: nat) \<le> 122 then of_char c - 32 else of_char c)"
    using c by (auto simp add: upper_def Let_def)
  have "(lower p = lower c) = ((of_char (lower p) :: nat) = of_char (lower c))"
    by simp
  also have "\<dots> = ((of_char (upper c) :: nat) = of_char p)"
    unfolding lp lc uc using assms by auto
  also have "\<dots> = (upper c = p)"
    by simp
  finally show ?thesis .
qed

lemma match_ci_take:
  "\<forall>p \<in> set pat. (of_char p :: nat) \<in> {65..90} \<Longrightarrow> match_ci pat s = (map upper (take (length pat) s) = pat)"
  by (induction pat s rule: match_ci.induct) (auto simp: lower_eq_upper)

lemma re_search_eq: "re_search s = pe_or_nstp s"
  unfolding re_search_def pe_or_nstp_def
  by (subst match_ci_take, simp)+ (simp add: eval_nat_numeral)

lemma getitem_DataFrame:
  "getitem (DataFrame recs) c =
     (if has_column c recs then Inr (Object (map (\<lambda>d. map_of d c) recs)) else Inl (KeyError c))"
proof -
  have "(c \<in> (\<Union>r \<in> set recs. fst ` set r)) = has_column c recs"
    by (auto simp: has_column_def map_of_eq_None_iff)
  then show ?thesis
    by (simp add: getitem_def map_of_DataFrame)
qed

lemma map2_map: "map2 f (map g xs) (map h xs) = map (\<lambda>x. f (g x) (h x)) xs"
  by (induction xs) simp_all

lemma invert_course:
  "invert (map (map_option re_search) (map (\<lambda>d. map_of d ''Course'') recs)) =
     (if \<exists>r \<in> set recs. map_of r ''Course'' = None then Inl TypeError
      else Inr (map (\<lambda>r. \<not> re_search (the (map_of r ''Course''))) recs))"
  by (auto simp: invert_def image_iff option.map_sel)

lemma to_numeric_Units:
  "to_numeric A (Object (map (\<lambda>d. map_of d ''Units'') recs)) = map (UnitsNumeric A) recs"
  by (simp add: UnitsNumeric_def)

lemma to_numeric_Grade:
  "to_numeric A (Object (map (\<lambda>d. map_of d ''Grade'') recs)) = map (GradeNumeric A) recs"
  by (simp add: GradeNumeric_def)

lemma is_included_column:
  assumes "\<forall>r \<in> set recs. map_of r ''Course'' \<noteq> None"
  shows "map2 (\<and>) (map (\<lambda>r. \<not> re_search (the (map_of r ''Course''))) recs)
           (notna A (map (GradeNumeric A) recs)) = map (IsIncluded A) recs"
proof -
  have "notna A (map (GradeNumeric A) recs) = map (\<lambda>r. \<not> f_isnan A (GradeNumeric A r)) recs"
    by (simp add: notna_def)
  then have "map2 (\<and>) (map (\<lambda>r. \<not> re_search (the (map_of r ''Course''))) recs)
           (notna A (map (GradeNumeric A) recs)) =
         map (\<lambda>r. \<not> re_search (the (map_of r ''Course'')) \<and> \<not> f_isnan A (GradeNumeric A r)) recs"
    by (simp only: map2_map)
  also have "\<dots> = map (IsIncluded A) recs"
    using assms by (intro map_cong) (auto simp: IsIncluded_def re_search_eq)
  finally show ?thesis .
qed

lemma weighted_column:
  "map2 (f_mul A) (map (GradeNumeric A) recs) (map (UnitsNumeric A) recs) = map (WeightedGrade A) recs"
  by (simp add: map2_map WeightedGrade_def)

lemma add_columns_DataFrame:
  "add_columns A (DataFrame recs) =
     (if \<not> has_column ''Units'' recs then Inl (KeyError ''Units'')
      else if \<not> has_column ''Grade'' recs then Inl (KeyError ''Grade'')
      else if \<not> has_column ''Course'' recs then Inl (KeyError ''Course'')
      else if \<exists>r \<in> set recs. map_of r ''Course'' = None then Inl TypeError
      else Inr (processed A recs))"
proof (cases "\<exists>r \<in> set recs. map_of r ''Course'' = None")
  case True
  then show ?thesis
    unfolding add_columns_def Let_def getitem_setitem getitem_DataFrame
    by (simp add: invert_course del: map_map)
next
  case False
  then have all: "\<forall>r \<in> set recs. map_of r ''Course'' \<noteq> None"
    by simp
  from False have ex: "(\<exists>r \<in> set recs. map_of r ''Course'' = None) = False"
    by simp
  show ?thesis
    unfolding add_columns_def Let_def getitem_setitem getitem_DataFrame
    by (simp add: ex invert_course processed_def to_numeric_Units to_numeric_Grade
        is_included_column[OF all] weighted_column del: map_map to_numeric.simps)
qed

lemma gwa_of_columns:
  assumes "getitem df ''Is_Included'' = Inr (Boolean inc)"
    and "getitem df ''Units_Calc'' = Inr (Float64 uc)"
    and "getitem df ''Weighted_Grade'' = Inr (Float64 wg)"
  shows "gwa_of A df =
     Inr (nansum A (select inc uc),
          if f_pos A (nansum A (select inc uc))
          then f_div A (nansum A (select inc wg)) (nansum A (select inc uc)) else f_zero A)"
  using assms by (simp add: gwa_of_def included_rows_def column_sum_def getitem_take_rows)

lemma getitem_processed:
  "getitem (processed A recs) ''Is_Included'' = Inr (Boolean (map (IsIncluded A) recs))"
  "getitem (processed A recs) ''Units_Calc'' = Inr (Float64 (map (UnitsNumeric A) recs))"
  "getitem (processed A recs) ''Grade_Calc'' = Inr (Float64 (map (GradeNumeric A) recs))"
  "getitem (processed A recs) ''Weighted_Grade'' = Inr (Float64 (map (WeightedGrade A) recs))"
  by (simp_all add: processed_def getitem_setitem)

lemma getitem_processed_other:
  "c \<notin> {''Units_Calc'', ''Grade_Calc'', ''Is_Included'', ''Weighted_Grade''} \<Longrightarrow>
   getitem (processed A recs) c = getitem (DataFrame recs) c"
  by (simp add: processed_def getitem_setitem)

lemma gwa_of_rows:
  "gwa_of A (take_rows (map K recs) (processed A recs)) =
     Inr (average A (filter (\<lambda>r. K r \<and> IsIncluded A r) recs))"
proof -
  let ?rs = "filter K recs"
  have "gwa_of A (take_rows (map K recs) (processed A recs)) =
     Inr (nansum A (select (map (IsIncluded A) ?rs) (map (UnitsNumeric A) ?rs)),
          if f_pos A (nansum A (select (map (IsIncluded A) ?rs) (map (UnitsNumeric A) ?rs)))
          then f_div A (nansum A (select (map (IsIncluded A) ?rs) (map (WeightedGrade A) ?rs)))
                 (nansum A (select (map (IsIncluded A) ?rs) (map (UnitsNumeric A) ?rs)))
          else f_zero A)"
    by (rule gwa_of_columns) (simp_all add: getitem_take_rows getitem_processed select_map)
  then show ?thesis
    by (simp add: select_map average_def Let_def conj_commute)
qed

lemma gwa_of_processed:
  "gwa_of A (processed A recs) = Inr (average A (filter (IsIncluded A) recs))"
proof -
  have "gwa_of A (processed A recs) =
     Inr (nansum A (select (map (IsIncluded A) recs) (map (UnitsNumeric A) recs)),
          if f_pos A (nansum A (select (map (IsIncluded A) recs) (map (UnitsNumeric A) recs)))
          then f_div A (nansum A (select (map (IsIncluded A) recs) (map (WeightedGrade A) recs)))
                 (nansum A (select (map (IsIncluded A) recs) (map (UnitsNumeric A) recs)))
          else f_zero A)"
    by (rule gwa_of_columns) (simp_all add: getitem_processed)
  then show ?thesis
    by (simp add: select_map average_def Let_def)
qed

lemma sem_loop_map:
  "\<forall>g \<in> set gs. sem_row A g = Inr (f g) \<Longrightarrow> sem_loop A gs acc = Inr (acc @ map f gs)"
  by (induction gs arbitrary: acc) simp_all

lemma uniques_map_inj:
  assumes "inj f"
  shows "uniques (map f xs) = map f (uniques xs)"
  using assms by (induction xs rule: rev_induct) (auto simp: uniques_snoc inj_eq)

lemma present_map:
  "present (map_option f a, map_option g b) = map (map_prod f g) (present (a, b))"
  by (cases a; cases b) simp_all

lemma zip_map_same: "zip (map f (map f' xs)) (map g (map g' xs)) = map (\<lambda>x. (f (f' x), g (g' x))) xs"
  by (induction xs) simp_all

lemma sem_loop_groups:
  "\<forall>t \<in> set ts. sem_row A (G t) = Inr (f t) \<Longrightarrow> sem_loop A (map G ts) acc = Inr (acc @ map f ts)"
  by (induction ts arbitrary: acc) simp_all

lemma keys_terms:
  "concat (map present (map (\<lambda>r. (map_option Str (map_of r ''Year''), map_option Str (map_of r ''Semester''))) recs))
     = map (map_prod Str Str) (terms recs)"
  by (induction recs) (simp_all add: terms_def term_of_def present_map)

lemma inj_Str_pair: "inj (map_prod Str Str)"
  by (auto simp: inj_on_def)

lemma groupby_processed:
  "groupby A (processed A recs) ''Year'' ''Semester'' =
     (if \<not> has_column ''Year'' recs then Inl (KeyError ''Year'')
      else if \<not> has_column ''Semester'' recs then Inl (KeyError ''Semester'')
      else Inr (map (group_of A recs) (uniques (terms recs))))"
proof -
  have groups: "map (\<lambda>(y, s). ((y, s),
              take_rows (map (\<lambda>k. k = (Some y, Some s))
                  (map (\<lambda>x. (map_option Str (map_of x ''Year''),
                             map_option Str (map_of x ''Semester''))) recs)) (processed A recs)))
           (map (map_prod Str Str) ts) = map (group_of A recs) ts" for ts
    by (simp add: group_of_def[abs_def] o_def split_beta term_of_def)
  show ?thesis
    unfolding groupby_def Let_def
    by (simp add: getitem_processed_other getitem_DataFrame zip_map_same keys_terms
        uniques_map_inj[OF inj_Str_pair] groups del: map_map)
qed

lemma sem_row_group: "sem_row A (group_of A recs t) = Inr (summary A recs t)"
  by (simp add: group_of_def gwa_of_rows summary_def Let_def split_beta)

lemma calculate_gwa_DataFrame:
  "calculate_gwa A (DataFrame recs) =
     (if \<not> has_column ''Units'' recs then Inl (KeyError ''Units'')
      else if \<not> has_column ''Grade'' recs then Inl (KeyError ''Grade'')
      else if \<not> has_column ''Course'' recs then Inl (KeyError ''Course'')
      else if \<exists>r \<in> set recs. map_of r ''Course'' = None then Inl TypeError
      else if \<not> has_column ''Year'' recs then Inl (KeyError ''Year'')
      else if \<not> has_column ''Semester'' recs then Inl (KeyError ''Semester'')
      else Inr (processed A recs, map (summary A recs) (uniques (terms recs)),
                snd (average A (filter (IsIncluded A) recs))))"
proof -
  have loop: "sem_loop A (map (group_of A recs) ts) [] = Inr (map (summary A recs) ts)" for ts
    using sem_loop_groups[of ts A "group_of A recs" "summary A recs" "[]"]
    by (simp add: sem_row_group)
  show ?thesis
    unfolding calculate_gwa_def add_columns_DataFrame
    by (auto simp add: groupby_processed loop gwa_of_processed split_beta)
qed

lemma parse_exs:
  "parse_decimal ''1.0'' = Some 1" "parse_decimal ''2.0'' = Some 2" "parse_decimal ''1.5'' = Some (3/2)"
  "parse_decimal ''3'' = Some 3" "parse_decimal ''2'' = Some 2"
  "parse_decimal ''INC'' = None" "parse_decimal ''x'' = None"
  by (simp_all add: parse_decimal_def is_digit_def nat_of_digits_def)

lemma ex_run:
  "calculate_gwa qarith (DataFrame ex_records) =
     Inr (processed qarith ex_records,
       [\<lparr>Year = Str ''2023'', Semester = Str ''FIRST'', Term = ''2023 1st Sem'', Units = Some 6, GWA = Some (3/2)\<rparr>,
        \<lparr>Year = Str ''2023'', Semester = Str ''SECOND'', Term = ''2023 2nd Sem'', Units = Some 3, GWA = Some 2\<rparr>,
        \<lparr>Year = Str ''2024'', Semester = Str ''FIRST'', Term = ''2024 1st Sem'', Units = Some 0, GWA = Some 0\<rparr>],
       Some (5/3))"
  unfolding calculate_gwa_DataFrame
  by (simp add: ex_records_def rec_of_def has_column_def terms_def term_of_def uniques_def
      summary_def average_def nansum_def IsIncluded_def GradeNumeric_def UnitsNumeric_def
      WeightedGrade_def qarith_def parse_exs pe_or_nstp_def upper_def short_sem_of_def Let_def)

lemma info_row_pairs:
  "info_row row d =
     foldl (\<lambda>d (k, v). AList.update k v d) d
       (case find_all ''td'' row of
          [k, v] \<Rightarrow> [(replace_colon (get_text k), get_text v)] | _ \<Rightarrow> [])"
proof (cases "find_all ''td'' row")
  case Nil
  then show ?thesis by (simp add: info_row_def)
next
  case (Cons a as)
  then show ?thesis
    by (cases as; cases "tl as") (simp_all add: info_row_def)
qed

lemma foldl_info_rows:
  "foldl (\<lambda>d row. info_row row d) d rows =
     foldl (\<lambda>d (k, v). AList.update k v d) d
       (concat (map (\<lambda>row. case find_all ''td'' row of
                           [k, v] \<Rightarrow> [(replace_colon (get_text k), get_text v)]
                         | _ \<Rightarrow> []) rows))"
  by (induction rows arbitrary: d) (simp_all add: info_row_pairs)

lemma map_of_foldl_update:
  "map_of (foldl (\<lambda>d (k, v). AList.update k v d) d kvs) = map_of (rev kvs @ d)"
proof (induction kvs arbitrary: d)
  case Nil
  then show ?case by simp
next
  case (Cons p kvs)
  obtain k v where p: "p = (k, v)" by (cases p)
  have "map_of (rev kvs @ AList.update k v d) = map_of (rev kvs @ (k, v) # d)"
    by (simp add: map_of_append update_conv')
  with Cons show ?case by (simp add: p)
qed

lemma update_absent: "k \<notin> fst ` set d \<Longrightarrow> AList.update k v d = d @ [(k, v)]"
  by (induction d) auto

lemma foldl_update_distinct:
  "distinct (map fst (d @ kvs)) \<Longrightarrow> foldl (\<lambda>d (k, v). AList.update k v d) d kvs = d @ kvs"
proof (induction kvs arbitrary: d)
  case Nil
  then show ?case by simp
next
  case (Cons p kvs)
  obtain k v where p: "p = (k, v)" by (cases p)
  from Cons.prems have "k \<notin> fst ` set d" and "distinct (map fst ((d @ [(k, v)]) @ kvs))"
    by (auto simp: p)
  with Cons.IH[of "d @ [(k, v)]"] show ?case
    by (simp add: p update_absent)
qed

lemma row_data_enumerate:
  "foldl (\<lambda>d (i, col). AList.update (headers ! i) (get_text col) d) d
       (filter (\<lambda>(i, col). i < length headers) (enumerate m cols)) =
   foldl (\<lambda>d (k, v). AList.update k v d) d (zip (drop m headers) (map get_text cols))"
proof (induction cols arbitrary: m d)
  case Nil
  then show ?case by simp
next
  case (Cons c cols)
  show ?case
  proof (cases "m < length headers")
    case True
    then have "drop m headers = headers ! m # drop (Suc m) headers"
      by (simp add: Cons_nth_drop_Suc)
    with True Cons.IH[of _ "Suc m"] show ?thesis by simp
  next
    case False
    with Cons.IH[of d "Suc m"] show ?thesis by simp
  qed
qed

lemma row_data_zip: "row_data headers cols = dict_of (zip headers (map get_text cols))"
  using row_data_enumerate[of headers "[]" 0 cols] by (simp add: row_data_def dict_of_def)





lemma and_then_Inr_iff: "(and_then m f = Inr y) = (\<exists>x. m = Inr x \<and> f x = Inr y)"
  by (cases m) auto

lemma setitem_same: "getitem df c = Inr col \<Longrightarrow> setitem df c col = df"
  by (auto simp: getitem_def setitem_def update_triv split: option.splits)

lemma add_columns_InrD:
  assumes "add_columns A df = Inr df'"
  shows "\<exists>units grade course not_pe.
     getitem df ''Units'' = Inr units \<and> getitem df ''Grade'' = Inr grade \<and>
     getitem df ''Course'' = Inr course \<and>
     and_then (str_contains course) invert = Inr not_pe \<and>
     df' = setitem (setitem (setitem (setitem df
        ''Units_Calc'' (Float64 (to_numeric A units)))
        ''Grade_Calc'' (Float64 (to_numeric A grade)))
        ''Is_Included'' (Boolean (map2 (\<and>) not_pe (notna A (to_numeric A grade)))))
        ''Weighted_Grade'' (Float64 (map2 (f_mul A) (to_numeric A grade) (to_numeric A units)))"
  using assms unfolding add_columns_def Let_def getitem_setitem
  by (auto simp: and_then_Inr_iff)

lemma add_columns_again:
  assumes "add_columns A df = Inr df'"
  shows "add_columns A df' = Inr df'"
proof -
  from add_columns_InrD[OF assms] obtain units grade course not_pe where
    u: "getitem df ''Units'' = Inr units" and g: "getitem df ''Grade'' = Inr grade" and
    c: "getitem df ''Course'' = Inr course" and
    n: "and_then (str_contains course) invert = Inr not_pe" and
    df': "df' = setitem (setitem (setitem (setitem df
        ''Units_Calc'' (Float64 (to_numeric A units)))
        ''Grade_Calc'' (Float64 (to_numeric A grade)))
        ''Is_Included'' (Boolean (map2 (\<and>) not_pe (notna A (to_numeric A grade)))))
        ''Weighted_Grade'' (Float64 (map2 (f_mul A) (to_numeric A grade) (to_numeric A units)))"
    by blast
  have u': "getitem df' ''Units'' = Inr units" and g': "getitem df' ''Grade'' = Inr grade"
    and c': "getitem df' ''Course'' = Inr course"
    by (simp_all add: df' getitem_setitem u g c)
  have s1: "setitem df' ''Units_Calc'' (Float64 (to_numeric A units)) = df'"
    by (rule setitem_same) (simp add: df' getitem_setitem)
  have s2: "setitem df' ''Grade_Calc'' (Float64 (to_numeric A grade)) = df'"
    by (rule setitem_same) (simp add: df' getitem_setitem)
  have s3: "setitem df' ''Is_Included'' (Boolean (map2 (\<and>) not_pe (notna A (to_numeric A grade)))) = df'"
    by (rule setitem_same) (simp add: df' getitem_setitem)
  have s4: "setitem df' ''Weighted_Grade''
      (Float64 (map2 (f_mul A) (to_numeric A grade) (to_numeric A units))) = df'"
    by (rule setitem_same) (simp add: df' getitem_setitem)
  from n obtain m where m: "str_contains course = Inr m" and i: "invert m = Inr not_pe"
    by (auto simp: and_then_Inr_iff)
  show ?thesis
    unfolding add_columns_def Let_def
    by (simp add: u' s1 g' s2 c' m i s3 s4)
qed

lemma map_fst_setitem:
  "map fst (setitem df c col) = map fst df @ filter (\<lambda>c. c \<notin> set (map fst df)) [c]"
  by (simp add: setitem_def update_keys)

lemma add_columns_frame:
  assumes "add_columns A df = Inr df'"
  shows "map fst df' = map fst df @ filter (\<lambda>c. c \<notin> set (map fst df)) derived_columns"
    and "c \<notin> set derived_columns \<Longrightarrow> map_of df' c = map_of df c"
proof -
  from add_columns_InrD[OF assms] obtain u g i w where
    df': "df' = setitem (setitem (setitem (setitem df ''Units_Calc'' u) ''Grade_Calc'' g)
        ''Is_Included'' i) ''Weighted_Grade'' w"
    by blast
  show "map fst df' = map fst df @ filter (\<lambda>c. c \<notin> set (map fst df)) derived_columns"
    unfolding df' by (simp add: map_fst_setitem derived_columns_def)
  show "c \<notin> set derived_columns \<Longrightarrow> map_of df' c = map_of df c"
    unfolding df' by (simp add: setitem_def update_conv' derived_columns_def)
qed





section \<open>The claims\<close>

lemma average_eq:
  "average A rs =
     (total_units A rs,
      if f_pos A (total_units A rs) then f_div A (weighted_sum A rs) (total_units A rs)
      else f_zero A)"
  by (simp add: average_def total_units_def weighted_sum_def Let_def)

lemma calculate_gwa_InrD:
  assumes "calculate_gwa A (DataFrame recs) = Inr (df, df_sem, overall_gwa)"
  shows "df = processed A recs"
    and "df_sem = map (summary A recs) (uniques (terms recs))"
    and "overall_gwa = snd (average A (filter (IsIncluded A) recs))"
    and "\<forall>r \<in> set recs. map_of r ''Course'' \<noteq> None"
  using assms unfolding calculate_gwa_DataFrame by (auto split: if_splits)

lemma ex_run2:
  "calculate_gwa qarith (DataFrame ex_records) =
     Inr (processed qarith ex_records, ex_summaries, Some (5 / 3))"
  using ex_run by (simp add: ex_summaries_def)

lemma qarith_laws:
  "\<not> f_pos qarith (f_zero qarith)" "f_sum qarith [] = f_zero qarith"
  "\<forall>a b. f_isnan qarith b \<longrightarrow> f_isnan qarith (f_mul qarith a b)"
  by (auto simp: qarith_def split: option.splits)

text \<open>As stated, claim C1 fails: for one included record without the field \<open>Units\<close> the
  unit sum over the included records is zero, and the aggregation raises \<open>KeyError\<close>
  instead of returning \<open>0.0\<close>.\<close>

theorem C1_counterexample:
  "calculate_gwa qarith (DataFrame ex_no_units) = Inl (KeyError ''Units'') \<and>
   filter (IsIncluded qarith) ex_no_units = ex_no_units \<and>
   total_units qarith (filter (IsIncluded qarith) ex_no_units) = f_zero qarith"
  by (simp add: calculate_gwa_DataFrame has_column_def ex_no_units_def IsIncluded_def
      GradeNumeric_def UnitsNumeric_def total_units_def nansum_def qarith_def parse_exs
      pe_or_nstp_def upper_def)

text \<open>
  Claim C1, amended.  When the record sequence has every column the aggregation reads
  (every record has a \<open>Course\<close>, and each of \<open>Units\<close>, \<open>Grade\<close>, \<open>Year\<close> and
  \<open>Semester\<close> occurs in at least one record), the aggregation returns, and for the
  overall result and for every term of the summary the GWA is the sum of
  \<open>WeightedGrade\<close> over the included records divided by the sum of \<open>UnitsNumeric\<close> over
  the included records when that unit sum is positive, and it is the literal \<open>0.0\<close> when
  that unit sum is zero.  Both sums skip NaN entries, as \<open>Series.sum\<close> does.  The one fact
  of arithmetic used is that \<open>0.0 > 0\<close> is false.  Without one of the columns the
  aggregation raises, whatever the unit sum.
\<close>

theorem C1_gwa_is_weighted_average:
  assumes "has_column ''Units'' recs" and "has_column ''Grade'' recs"
    and "has_column ''Year'' recs" and "has_column ''Semester'' recs"
    and "\<forall>r \<in> set recs. map_of r ''Course'' \<noteq> None"
    and "\<not> f_pos A (f_zero A)"
  shows "\<exists>df df_sem overall_gwa.
         calculate_gwa A (DataFrame recs) = Inr (df, df_sem, overall_gwa) \<and>
         (f_pos A (total_units A (filter (IsIncluded A) recs)) \<longrightarrow>
            overall_gwa = f_div A (weighted_sum A (filter (IsIncluded A) recs))
                                  (total_units A (filter (IsIncluded A) recs))) \<and>
         (total_units A (filter (IsIncluded A) recs) = f_zero A \<longrightarrow> overall_gwa = f_zero A) \<and>
         (\<forall>t \<in> set df_sem. \<exists>y s. Year t = Str y \<and> Semester t = Str s \<and>
            Units t = total_units A (included_in_term A recs y s) \<and>
            (f_pos A (total_units A (included_in_term A recs y s)) \<longrightarrow>
               GWA t = f_div A (weighted_sum A (included_in_term A recs y s))
                               (total_units A (included_in_term A recs y s))) \<and>
            (total_units A (included_in_term A recs y s) = f_zero A \<longrightarrow> GWA t = f_zero A))"
proof -
  from assms(1) have "recs \<noteq> []"
    by (auto simp: has_column_def)
  with assms(5) have "has_column ''Course'' recs"
    by (cases recs) (auto simp: has_column_def)
  with assms(1-5) have run: "calculate_gwa A (DataFrame recs) =
      Inr (processed A recs, map (summary A recs) (uniques (terms recs)),
           snd (average A (filter (IsIncluded A) recs)))"
    unfolding calculate_gwa_DataFrame by auto
  have overall: "(f_pos A (total_units A (filter (IsIncluded A) recs)) \<longrightarrow>
        snd (average A (filter (IsIncluded A) recs)) =
          f_div A (weighted_sum A (filter (IsIncluded A) recs))
                  (total_units A (filter (IsIncluded A) recs))) \<and>
      (total_units A (filter (IsIncluded A) recs) = f_zero A \<longrightarrow>
        snd (average A (filter (IsIncluded A) recs)) = f_zero A)"
    using assms(6) by (simp add: average_eq)
  have terms: "\<exists>y s. Year t = Str y \<and> Semester t = Str s \<and>
            Units t = total_units A (included_in_term A recs y s) \<and>
            (f_pos A (total_units A (included_in_term A recs y s)) \<longrightarrow>
               GWA t = f_div A (weighted_sum A (included_in_term A recs y s))
                               (total_units A (included_in_term A recs y s))) \<and>
            (total_units A (included_in_term A recs y s) = f_zero A \<longrightarrow> GWA t = f_zero A)"
    if "t \<in> set (map (summary A recs) (uniques (terms recs)))" for t
  proof -
    from that obtain k where t: "t = summary A recs k"
      by auto
    show ?thesis
      using assms(6)
      by (intro exI[of _ "fst k"] exI[of _ "snd k"])
         (simp add: t summary_def Let_def average_eq included_in_term_def)
  qed
  from run overall terms show ?thesis
    by blast
qed

text \<open>The sample records: the overall unit sum is 9, the weighted sum 15, the GWA 5/3.\<close>

theorem C1_witness:
  "has_column ''Units'' ex_records \<and> has_column ''Grade'' ex_records \<and>
   has_column ''Year'' ex_records \<and> has_column ''Semester'' ex_records \<and>
   list_all (\<lambda>r. map_of r ''Course'' \<noteq> None) ex_records \<and>
   \<not> f_pos qarith (f_zero qarith) \<and>
   calculate_gwa qarith (DataFrame ex_records) =
     Inr (processed qarith ex_records, ex_summaries, Some (5 / 3)) \<and>
   f_pos qarith (total_units qarith (filter (IsIncluded qarith) ex_records)) \<and>
   f_div qarith (weighted_sum qarith (filter (IsIncluded qarith) ex_records))
                (total_units qarith (filter (IsIncluded qarith) ex_records)) = Some (5 / 3)"
proof -
  have h: "has_column ''Units'' ex_records" "has_column ''Grade'' ex_records"
      "has_column ''Year'' ex_records" "has_column ''Semester'' ex_records"
      "\<forall>r \<in> set ex_records. map_of r ''Course'' \<noteq> None"
    by (simp_all add: has_column_def ex_records_def rec_of_def)
  have pos: "f_pos qarith (total_units qarith (filter (IsIncluded qarith) ex_records))"
    by (simp add: total_units_def nansum_def ex_records_def rec_of_def IsIncluded_def
        GradeNumeric_def UnitsNumeric_def qarith_def parse_exs pe_or_nstp_def upper_def)
  from C1_gwa_is_weighted_average[OF h qarith_laws(1)] pos ex_run2
  have "Some (5 / 3) = f_div qarith (weighted_sum qarith (filter (IsIncluded qarith) ex_records))
                (total_units qarith (filter (IsIncluded qarith) ex_records))"
    by auto
  with pos ex_run2 qarith_laws(1) h show ?thesis
    by (simp add: list_all_iff)
qed

lemma pe_or_nstp_upper:
  "map upper c \<in> {''PE101'', ''NSTP1''} \<Longrightarrow> pe_or_nstp c"
  by (auto simp: pe_or_nstp_def take_map[symmetric])

text \<open>
  Claim C2.  Whenever the aggregation returns, the \<open>Is_Included\<close> column holds, for every
  record, the truth value of: the course code does not start with PE or NSTP (compared
  without regard to case) and the grade parses to a number.  A record whose course is
  PE101 or NSTP1 in any case is not included, nor is a record whose grade does not parse.
\<close>

theorem C2_is_included_iff:
  assumes "calculate_gwa A (DataFrame recs) = Inr (df, df_sem, overall_gwa)"
  shows "getitem df ''Is_Included'' = Inr (Boolean (map (IsIncluded A) recs)) \<and>
         (\<forall>r \<in> set recs. \<exists>c. map_of r ''Course'' = Some c \<and>
            IsIncluded A r = (\<not> pe_or_nstp c \<and> \<not> f_isnan A (GradeNumeric A r))) \<and>
         (\<forall>r \<in> set recs. \<forall>c. map_of r ''Course'' = Some c \<and>
            map upper c \<in> {''PE101'', ''NSTP1''} \<longrightarrow> \<not> IsIncluded A r) \<and>
         (\<forall>r \<in> set recs. \<forall>g. map_of r ''Grade'' = Some g \<and> f_isnan A (f_parse A g) \<longrightarrow>
            \<not> IsIncluded A r)"
proof (intro conjI ballI allI impI)
  note r = calculate_gwa_InrD[OF assms]
  show "getitem df ''Is_Included'' = Inr (Boolean (map (IsIncluded A) recs))"
    by (simp add: r(1) getitem_processed)
next
  fix r
  assume "r \<in> set recs"
  with calculate_gwa_InrD(4)[OF assms] obtain c where "map_of r ''Course'' = Some c"
    by auto
  then show "\<exists>c. map_of r ''Course'' = Some c \<and>
            IsIncluded A r = (\<not> pe_or_nstp c \<and> \<not> f_isnan A (GradeNumeric A r))"
    by (simp add: IsIncluded_def)
next
  fix r c
  assume "map_of r ''Course'' = Some c \<and> map upper c \<in> {''PE101'', ''NSTP1''}"
  then show "\<not> IsIncluded A r"
    using pe_or_nstp_upper[of c] by (simp add: IsIncluded_def)
next
  fix r g
  assume "map_of r ''Grade'' = Some g \<and> f_isnan A (f_parse A g)"
  then show "\<not> IsIncluded A r"
    by (simp add: IsIncluded_def GradeNumeric_def)
qed

text \<open>The sample records: PE1 and the grade INC are excluded, the four others included.\<close>

theorem C2_witness:
  "calculate_gwa qarith (DataFrame ex_records) =
     Inr (processed qarith ex_records, ex_summaries, Some (5 / 3)) \<and>
   getitem (processed qarith ex_records) ''Is_Included'' =
     Inr (Boolean [True, False, True, False, True, True])"
proof -
  have "map (IsIncluded qarith) ex_records = [True, False, True, False, True, True]"
    by (simp add: ex_records_def rec_of_def IsIncluded_def GradeNumeric_def qarith_def
        parse_exs pe_or_nstp_def upper_def)
  with C2_is_included_iff[OF ex_run2] ex_run2 show ?thesis
    by simp
qed

text \<open>As stated, claim C3 fails: the frame of the empty record sequence has no column, and
  reading \<open>df['Units']\<close> raises \<open>KeyError\<close>.\<close>

theorem C3_counterexample:
  "calculate_gwa qarith (DataFrame []) = Inl (KeyError ''Units'')"
  by (simp add: calculate_gwa_DataFrame has_column_def)

text \<open>
  Claim C3, amended.  The aggregation returns normally exactly when the record sequence is
  not empty, every record has a \<open>Course\<close>, and each of \<open>Units\<close>, \<open>Grade\<close>, \<open>Year\<close>
  and \<open>Semester\<close> occurs in at least one record; single records may lack any of these
  four.  In every other case it raises.  The caller calls it on non-empty frames only.
\<close>

theorem C3_returns_iff:
  "(\<exists>res. calculate_gwa A (DataFrame recs) = Inr res) =
     (has_column ''Units'' recs \<and> has_column ''Grade'' recs \<and> has_column ''Year'' recs \<and>
      has_column ''Semester'' recs \<and> recs \<noteq> [] \<and>
      (\<forall>r \<in> set recs. map_of r ''Course'' \<noteq> None))"
proof -
  have "has_column ''Course'' recs"
    if "recs \<noteq> []" "\<forall>r \<in> set recs. map_of r ''Course'' \<noteq> None"
    using that by (cases recs) (auto simp: has_column_def)
  moreover have "recs \<noteq> []" if "has_column ''Units'' recs"
    using that by (auto simp: has_column_def)
  ultimately show ?thesis
    unfolding calculate_gwa_DataFrame by auto
qed

text \<open>The sample records satisfy the condition, and the aggregation returns on them.\<close>

theorem C3_witness:
  "has_column ''Units'' ex_records \<and> has_column ''Grade'' ex_records \<and>
   has_column ''Year'' ex_records \<and> has_column ''Semester'' ex_records \<and>
   list_all (\<lambda>r. map_of r ''Course'' \<noteq> None) ex_records \<and>
   \<not> isl (calculate_gwa qarith (DataFrame ex_records))"
proof -
  have h: "has_column ''Units'' ex_records \<and> has_column ''Grade'' ex_records \<and>
      has_column ''Year'' ex_records \<and> has_column ''Semester'' ex_records \<and>
      ex_records \<noteq> [] \<and> (\<forall>r \<in> set ex_records. map_of r ''Course'' \<noteq> None)"
    by (simp add: has_column_def ex_records_def rec_of_def)
  with C3_returns_iff[of qarith ex_records]
  obtain res where "calculate_gwa qarith (DataFrame ex_records) = Inr res"
    by blast
  with h show ?thesis
    by (simp add: list_all_iff)
qed




lemma get_text_td [simp]: "get_text (td s) = strip s"
  by (simp add: td_def get_text_def)

lemma get_text_th [simp]: "get_text (th s) = strip s"
  by (simp add: th_def get_text_def)

lemma strip_exs:
  "strip ''Name:'' = ''Name:''" "strip '' Juan Dela Cruz '' = ''Juan Dela Cruz''"
  "strip ''Student Number:'' = ''Student Number:''" "strip ''2021-00001'' = ''2021-00001''"
  "strip ''A:B:'' = ''A:B:''" "strip ''v'' = ''v''" "strip ''A'' = ''A''" "strip ''B'' = ''B''"
  "strip ''1'' = ''1''" "strip ''2'' = ''2''" "strip ''MATH1'' = ''MATH1''"
  "strip ''1.0'' = ''1.0''" "strip ''3'' = ''3''" "strip ''x'' = ''x''" "strip ''y'' = ''y''"
  "strip ''Course'' = ''Course''" "strip ''Grade'' = ''Grade''" "strip ''Units'' = ''Units''"
  by (simp_all add: strip_def py_isspace_def)

text \<open>As stated, claim C5 fails: for the key cell \<open>A:B:\<close> the stored key is \<open>AB\<close>, while
  removing a trailing colon gives \<open>A:B\<close>.\<close>

theorem C5_counterexample:
  "fst (parse_csrs_file ex_colon_doc :: dict \<times> rat option dataframe) = [(''AB'', ''v'')] \<and>
   rstrip_colon (get_text (td ''A:B:'')) = ''A:B''"
  by (simp add: parse_csrs_file_def student_info_of_def find_class_def find_all_class_def
      ex_colon_doc_def tr_def find_all_def info_row_def td_def get_text_def strip_exs
      replace_colon_def rstrip_colon_def)

text \<open>
  Claim C5, amended.  The student information maps, for every row of the first table of
  class \<open>form\<close> that has exactly two cells, the first cell's stripped text with every
  colon removed to the second cell's stripped text, a later row overwriting an earlier one
  with the same key; rows with any other number of cells contribute nothing, and without
  such a table the mapping is empty.
\<close>

theorem C5_student_info:
  "map_of (fst (parse_csrs_file soup :: dict \<times> 'f dataframe)) =
     (case find_class ''table'' ''form'' soup of
        None \<Rightarrow> Map.empty
      | Some info_table \<Rightarrow> map_of (rev (info_pairs info_table)))"
  by (simp add: parse_csrs_file_def student_info_of_def foldl_info_rows map_of_foldl_update
      info_pairs_def split: option.splits)

text \<open>The rows Name and Student Number of the specification, written with a colon after
  the key and spaces around a value, and a row of one cell.\<close>

theorem C5_witness:
  "map_of (fst (parse_csrs_file ex_info_doc :: dict \<times> rat option dataframe)) ''Name'' =
     Some ''Juan Dela Cruz'' \<and>
   map_of (fst (parse_csrs_file ex_info_doc :: dict \<times> rat option dataframe)) ''Student Number'' =
     Some ''2021-00001'' \<and>
   dom (map_of (fst (parse_csrs_file ex_info_doc :: dict \<times> rat option dataframe))) =
     {''Name'', ''Student Number''}"
proof -
  have t: "find_class ''table'' ''form'' ex_info_doc =
      Some (Tag ''table'' [''form'']
          [tr [td ''Name:'', td '' Juan Dela Cruz ''],
           tr [td ''Student Number:'', td ''2021-00001''],
           tr [td ''a row with one cell'']])"
    by (simp add: find_class_def find_all_class_def ex_info_doc_def tr_def td_def)
  have p: "info_pairs (Tag ''table'' [''form'']
          [tr [td ''Name:'', td '' Juan Dela Cruz ''],
           tr [td ''Student Number:'', td ''2021-00001''],
           tr [td ''a row with one cell'']]) =
         [(''Name'', ''Juan Dela Cruz''), (''Student Number'', ''2021-00001'')]"
    by (simp add: info_pairs_def find_all_def tr_def td_def get_text_def strip_exs
        replace_colon_def)
  show ?thesis
    by (auto simp: C5_student_info t p)
qed

lemma keys_zip: "map fst (zip xs ys) = take (length ys) xs"
  by (simp add: map_fst_zip_take min_def)

lemma dict_of_map_of: "map_of (dict_of kvs) = map_of (rev kvs)"
  using map_of_foldl_update[of "[]" kvs] by (simp add: dict_of_def)

lemma dict_of_distinct: "distinct (map fst kvs) \<Longrightarrow> dict_of kvs = kvs"
  using foldl_update_distinct[of "[]" kvs] by (simp add: dict_of_def)

lemma dict_of_keys: "fst ` set (dict_of kvs) = fst ` set kvs"
proof -
  have "dom (map_of (dict_of kvs)) = dom (map_of (rev kvs))"
    by (simp add: dict_of_map_of)
  then show ?thesis
    by (simp add: dom_map_of_conv_image_fst)
qed

lemma dict_of_distinct_keys: "distinct (map fst (dict_of kvs))"
proof -
  have "distinct (map fst d) \<Longrightarrow>
      distinct (map fst (foldl (\<lambda>d (k, v). AList.update k v d) d kvs))" for d
    by (induction kvs arbitrary: d) (auto simp: distinct_update)
  from this[of "[]"] show ?thesis
    by (simp add: dict_of_def)
qed

lemma grade_row_append:
  "grade_row headers row acc =
     acc @ (if find ''th'' row = None \<and> find_all ''td'' row \<noteq> []
            then [row_data headers (find_all ''td'' row)] else [])"
  by (simp add: grade_row_def Let_def)

lemma foldl_grade_rows:
  "foldl (\<lambda>acc row. grade_row headers row acc) acc rows =
     acc @ map (\<lambda>row. row_data headers (find_all ''td'' row))
             (filter (\<lambda>row. find ''th'' row = None \<and> find_all ''td'' row \<noteq> []) rows)"
proof (induction rows arbitrary: acc)
  case Nil
  show ?case by simp
next
  case (Cons row rows)
  show ?case
    by (simp add: Cons.IH grade_row_append[of headers row acc])
qed

lemma grade_table_append:
  "grade_table table acc =
     acc @ map (\<lambda>row. row_data (table_headers table) (find_all ''td'' row)) (data_rows table)"
  by (simp add: grade_table_def Let_def foldl_grade_rows data_rows_def)

lemma foldl_grade_tables:
  "foldl (\<lambda>acc table. grade_table table acc) acc tables =
     acc @ concat (map (\<lambda>table. map (\<lambda>row. row_data (table_headers table) (find_all ''td'' row))
                                   (data_rows table)) tables)"
proof (induction tables arbitrary: acc)
  case Nil
  show ?case by simp
next
  case (Cons table tables)
  show ?case
    by (simp add: Cons.IH grade_table_append[of table acc])
qed

text \<open>As stated, claim C6 fails: under a header of three columns named A, A and B, a data
  row of five cells gives a record of two keys; the second cell overwrites the first.\<close>

theorem C6_counterexample:
  "map table_headers (find_all_class ''table'' ''list'' ex_repeated_doc) = [[''A'', ''A'', ''B'']] \<and>
   all_grades_of ex_repeated_doc = [[(''A'', ''2''), (''B'', ''3'')]]"
  by (simp add: all_grades_of_def grade_table_def grade_row_def row_data_def table_headers_def
      find_def find_all_def find_all_class_def ex_repeated_doc_def tr_def td_def th_def
      get_text_def strip_exs)

text \<open>
  Claim C6, amended.  The grade records that the extraction returns are, table by table in
  document order and row by row, one record for each data row (a row without a header
  cell and with at least one cell; a row with no cell gives no record).  The record maps
  the table's column names to the stripped texts of the row's cells by position, cut to
  the shorter of the two lists; where a column name is repeated the later position wins,
  so the keys of the record are the distinct names among the first \<open>length cols\<close> column
  names.  With pairwise distinct column names the record is the zip itself: five cells
  under three such columns give exactly three keys, holding the first three cells.
\<close>

theorem C6_rows_zipped_with_headers:
  "snd (parse_csrs_file soup :: dict \<times> 'f dataframe) = DataFrame (all_grades_of soup) \<and>
   all_grades_of soup =
     concat (map (\<lambda>table. map (\<lambda>row. row_data (table_headers table) (find_all ''td'' row))
                            (data_rows table))
               (find_all_class ''table'' ''list'' soup)) \<and>
   (find_all ''td'' row = [] \<longrightarrow> row \<notin> set (data_rows table)) \<and>
   map_of (row_data headers cols) = map_of (rev (zip headers (map get_text cols))) \<and>
   distinct (map fst (row_data headers cols)) \<and>
   fst ` set (row_data headers cols) = set (take (length cols) headers) \<and>
   (distinct headers \<longrightarrow> row_data headers cols = zip headers (map get_text cols)) \<and>
   (distinct headers \<and> length headers = 3 \<and> length cols = 5 \<longrightarrow>
      length (row_data headers cols) = 3 \<and>
      map snd (row_data headers cols) = map get_text (take 3 cols))"
proof (intro conjI impI)
  show "snd (parse_csrs_file soup :: dict \<times> 'f dataframe) = DataFrame (all_grades_of soup)"
    by (simp add: parse_csrs_file_def)
  show "all_grades_of soup =
     concat (map (\<lambda>table. map (\<lambda>row. row_data (table_headers table) (find_all ''td'' row))
                            (data_rows table))
               (find_all_class ''table'' ''list'' soup))"
    by (simp add: all_grades_of_def foldl_grade_tables)
  show "row \<notin> set (data_rows table)" if "find_all ''td'' row = []"
    using that by (simp add: data_rows_def)
  show "map_of (row_data headers cols) = map_of (rev (zip headers (map get_text cols)))"
    by (simp add: row_data_zip dict_of_map_of)
  show "distinct (map fst (row_data headers cols))"
    by (simp add: row_data_zip dict_of_distinct_keys)
  have "fst ` set (zip headers (map get_text cols)) = set (take (length cols) headers)"
    using keys_zip[of headers "map get_text cols"]
    by (metis length_map set_map)
  then show "fst ` set (row_data headers cols) = set (take (length cols) headers)"
    by (simp add: row_data_zip dict_of_keys)
  have z: "row_data headers cols = zip headers (map get_text cols)" if "distinct headers"
  proof -
    from that have "distinct (map fst (zip headers (map get_text cols)))"
      by (simp add: keys_zip)
    then show ?thesis
      by (simp add: row_data_zip dict_of_distinct)
  qed
  then show "row_data headers cols = zip headers (map get_text cols)" if "distinct headers"
    using that .
  assume h: "distinct headers \<and> length headers = 3 \<and> length cols = 5"
  then show "length (row_data headers cols) = 3"
    by (simp add: z)
  from h have "map snd (zip headers (map get_text cols)) = take 3 (map get_text cols)"
    by (simp add: map_snd_zip_take)
  with h show "map snd (row_data headers cols) = map get_text (take 3 cols)"
    by (simp add: z take_map)
qed

text \<open>A table with the columns Course, Grade, Units, a data row of five cells and a row
  without cells: one record of three keys.\<close>

theorem C6_witness:
  "distinct [''Course'', ''Grade'', ''Units''] \<and>
   map table_headers (find_all_class ''table'' ''list'' ex_grade_doc) =
     [[''Course'', ''Grade'', ''Units'']] \<and>
   map (\<lambda>table. map (find_all ''td'') (data_rows table))
       (find_all_class ''table'' ''list'' ex_grade_doc) =
     [[[td ''MATH1'', td ''1.0'', td ''3'', td ''x'', td ''y'']]] \<and>
   all_grades_of ex_grade_doc =
     [[(''Course'', ''MATH1''), (''Grade'', ''1.0''), (''Units'', ''3'')]]"
proof -
  let ?hs = "[''Course'', ''Grade'', ''Units'']"
  let ?cols = "[td ''MATH1'', td ''1.0'', td ''3'', td ''x'', td ''y'']"
  have d: "distinct ?hs"
    by simp
  have hs: "map table_headers (find_all_class ''table'' ''list'' ex_grade_doc) = [?hs]"
    by (simp add: table_headers_def find_all_def find_all_class_def ex_grade_doc_def tr_def
        td_def th_def get_text_def strip_exs)
  have rows: "map (\<lambda>table. map (find_all ''td'') (data_rows table))
       (find_all_class ''table'' ''list'' ex_grade_doc) = [[?cols]]"
    by (simp add: data_rows_def find_def find_all_def find_all_class_def ex_grade_doc_def tr_def
        td_def th_def)
  have "all_grades_of ex_grade_doc =
     concat (map (\<lambda>table. map (row_data (table_headers table))
                            (map (find_all ''td'') (data_rows table)))
               (find_all_class ''table'' ''list'' ex_grade_doc))"
    using C6_rows_zipped_with_headers[where soup = ex_grade_doc, THEN conjunct2, THEN conjunct1]
    by (simp add: o_def)
  also have "\<dots> = concat (map (\<lambda>(h, r). map (row_data h) r)
      (zip (map table_headers (find_all_class ''table'' ''list'' ex_grade_doc))
           (map (\<lambda>table. map (find_all ''td'') (data_rows table))
               (find_all_class ''table'' ''list'' ex_grade_doc))))"
    by (simp add: zip_map_map zip_same_conv_map o_def)
  also have "\<dots> = [row_data ?hs ?cols]"
    unfolding hs rows by simp
  also have "row_data ?hs ?cols = zip ?hs (map get_text ?cols)"
    using C6_rows_zipped_with_headers[where headers = ?hs and cols = ?cols] d by blast
  finally show ?thesis
    using d hs rows by (simp add: strip_exs)
qed



text \<open>
  Claim C8.  The aggregation is a function of its input, and it changes the frame it is
  given in place; running it again on the frame as the first run left it returns the same
  frame, the same summary and the same overall GWA.
\<close>

theorem C8_second_run_identical:
  assumes "calculate_gwa A df = Inr (df', df_sem, overall_gwa)"
  shows "calculate_gwa A df' = Inr (df', df_sem, overall_gwa)"
proof -
  from assms obtain d where d: "add_columns A df = Inr d"
    and rest: "and_then (groupby A d ''Year'' ''Semester'') (\<lambda>sem_groups.
       and_then (sem_loop A sem_groups []) (\<lambda>df_sem.
       and_then (gwa_of A d) (\<lambda>(total_units_cum, overall_gwa).
         Inr (d, df_sem, overall_gwa)))) = Inr (df', df_sem, overall_gwa)"
    unfolding calculate_gwa_def by (auto simp: and_then_Inr_iff)
  from rest have same: "d = df'"
    by (auto simp: and_then_Inr_iff)
  from d have "add_columns A d = Inr d"
    by (rule add_columns_again)
  with rest same show ?thesis
    unfolding calculate_gwa_def by simp
qed

text \<open>The second run on the processed sample records.\<close>

theorem C8_witness:
  "calculate_gwa qarith (DataFrame ex_records) =
     Inr (processed qarith ex_records, ex_summaries, Some (5 / 3)) \<and>
   calculate_gwa qarith (processed qarith ex_records) =
     Inr (processed qarith ex_records, ex_summaries, Some (5 / 3))"
  using C8_second_run_identical[OF ex_run2] ex_run2 by simp






lemma calculate_gwa_add_columns:
  "calculate_gwa A df = Inr (df', df_sem, overall_gwa) \<Longrightarrow> add_columns A df = Inr df'"
  unfolding calculate_gwa_def by (auto simp: and_then_Inr_iff)

text \<open>As stated, claim C10 fails: an input column named \<open>Units_Calc\<close> is overwritten.\<close>

theorem C10_counterexample:
  "getitem (DataFrame ex_clobber :: rat option dataframe) ''Units_Calc'' = Inr (Object [Some ''x'']) \<and>
   calculate_gwa qarith (DataFrame ex_clobber) =
     Inr (processed qarith ex_clobber,
          [\<lparr>Year = Str ''2023'', Semester = Str ''FIRST'', Term = ''2023 1st Sem'',
            Units = Some 3, GWA = Some 1\<rparr>], Some 1) \<and>
   getitem (processed qarith ex_clobber) ''Units_Calc'' = Inr (Float64 [Some 3])"
  unfolding calculate_gwa_DataFrame getitem_processed getitem_DataFrame
  by (simp add: ex_clobber_def rec_of_def has_column_def terms_def term_of_def uniques_def
      summary_def average_def nansum_def IsIncluded_def GradeNumeric_def UnitsNumeric_def
      WeightedGrade_def qarith_def parse_exs pe_or_nstp_def upper_def short_sem_of_def Let_def)

text \<open>
  Claim C10, amended.  The returned frame has the columns of the input in their order,
  followed by those of \<open>Units_Calc\<close>, \<open>Grade_Calc\<close>, \<open>Is_Included\<close> and
  \<open>Weighted_Grade\<close> that the input did not have; every input column under another name
  is unchanged, rows and order included; the four derived columns are two numeric, one
  boolean and one numeric column.
\<close>

theorem C10_frame_preserved:
  assumes "calculate_gwa A df = Inr (df', df_sem, overall_gwa)"
  shows "map fst df' = map fst df @ filter (\<lambda>c. c \<notin> set (map fst df)) derived_columns \<and>
         (\<forall>c. c \<notin> set derived_columns \<longrightarrow> map_of df' c = map_of df c) \<and>
         (\<exists>u g i w. map_of df' ''Units_Calc'' = Some (Float64 u) \<and>
            map_of df' ''Grade_Calc'' = Some (Float64 g) \<and>
            map_of df' ''Is_Included'' = Some (Boolean i) \<and>
            map_of df' ''Weighted_Grade'' = Some (Float64 w))"
proof (intro conjI allI impI)
  note a = calculate_gwa_add_columns[OF assms]
  show "map fst df' = map fst df @ filter (\<lambda>c. c \<notin> set (map fst df)) derived_columns"
    by (rule add_columns_frame(1)[OF a])
  show "map_of df' c = map_of df c" if "c \<notin> set derived_columns" for c
    using that by (rule add_columns_frame(2)[OF a])
  from add_columns_InrD[OF a] obtain u g i w where
    "df' = setitem (setitem (setitem (setitem df ''Units_Calc'' (Float64 u))
        ''Grade_Calc'' (Float64 g)) ''Is_Included'' (Boolean i)) ''Weighted_Grade'' (Float64 w)"
    by blast
  then show "\<exists>u g i w. map_of df' ''Units_Calc'' = Some (Float64 u) \<and>
            map_of df' ''Grade_Calc'' = Some (Float64 g) \<and>
            map_of df' ''Is_Included'' = Some (Boolean i) \<and>
            map_of df' ''Weighted_Grade'' = Some (Float64 w)"
    by (simp add: setitem_def update_conv')
qed

text \<open>The columns of the processed sample records.\<close>

theorem C10_witness:
  "calculate_gwa qarith (DataFrame ex_records) =
     Inr (processed qarith ex_records, ex_summaries, Some (5 / 3)) \<and>
   map fst (processed qarith ex_records) =
     [''Course'', ''Grade'', ''Units'', ''Year'', ''Semester'',
      ''Units_Calc'', ''Grade_Calc'', ''Is_Included'', ''Weighted_Grade''] \<and>
   map_of (processed qarith ex_records) ''Course'' =
     map_of (DataFrame ex_records) ''Course''"
proof -
  have k: "map fst (DataFrame ex_records :: rat option dataframe) =
      [''Course'', ''Grade'', ''Units'', ''Year'', ''Semester'']"
    by (simp add: DataFrame_def ex_records_def rec_of_def uniques_def o_def)
  from C10_frame_preserved[OF ex_run2] show ?thesis
    using ex_run2 by (simp add: k derived_columns_def)
qed

end
